theory Spec2Isabelle
  imports Complex_Main "HOL-Library.Word"
begin

section \<open>etcd-monitor: data model\<close>

text \<open>
  The program is the single file \<open>etcd-monitor.go\<close>. Its three functions \<open>main\<close>,
  \<open>checkEtcdHealth\<close> and \<open>reportUnhealtyCount\<close> are embedded below. Everything the
  program does to the outside (log lines, the HTTP GET, the CloudWatch call, arming and
  stopping the ticker, registering for signals) is recorded, in program order, as a list
  of effects; everything the outside answers (the HTTP response, the decoder's result,
  the clock, the CloudWatch result) is read from an explicit environment.
\<close>

text \<open>A Go \<open>error\<close> value, carried as its message (\<open>err.Error()\<close>).\<close>

datatype error = Error (Error_msg: string)

text \<open>\<open>type Health struct { IsHealthy bool `json:"health,string"` }\<close>\<close>

record Health =
  IsHealthy :: bool

text \<open>\<open>var status Health\<close>: the zero value of the struct.\<close>

definition zero_Health :: Health where
  "zero_Health = \<lparr>IsHealthy = False\<rparr>"

text \<open>
  The CloudWatch request, with the fields the program sets. The fields it leaves
  \<open>nil\<close> are not carried. The \<open>float64\<close> statistics only ever hold the literals
  \<open>0.0\<close> and \<open>1.0\<close> and are only compared with \<open>0\<close>, which is exact; they are
  modelled as \<open>real\<close>. A point in time is an integer clock reading.
\<close>

type_synonym time = int

record Dimension =
  Name :: string
  Value :: string

record StatisticSet =
  Maximum :: real
  Minimum :: real
  SampleCount :: real
  Sum :: real

record MetricDatum =
  MetricName :: string
  Dimensions :: "Dimension list"
  StatisticValues :: StatisticSet
  Timestamp :: time
  Unit :: string

record PutMetricDataInput =
  MetricData :: "MetricDatum list"
  Namespace :: string

text \<open>\<open>os.Signal\<close>, as the number of a \<open>syscall.Signal\<close>.\<close>

datatype os_Signal = Signal int

text \<open>
  The package-level variables that \<open>main\<close> fills from flags and environment and that
  the two tick functions read through pointers, together with \<open>*interval\<close>. Go's
  \<open>int\<close> is 64 bits wide on the build target (\<open>GOARCH=amd64\<close>).
\<close>

record config =
  interval :: "64 word"
  address :: string
  etcdName :: string
  namespace :: string
  awsRegion :: string

text \<open>An argument of a \<open>Printf\<close> call; the rendering of a verb is left to \<open>fmt\<close>.\<close>

datatype arg = AInt "64 word" | AStr string | AErr error | ASig os_Signal

text \<open>The observable actions of the program.\<close>

datatype effect =
    FmtPrintln string
  | FmtPrintf string "arg list"
  | LogPrintf string "arg list"
  | LogPrintln string
  | LogFatal error
  | HttpGet string
  | PutMetricData PutMetricDataInput "error option"
  | NewTicker "64 word"
  | SignalNotify "os_Signal list"
  | TickerStop

text \<open>
  What one tick reads from the outside: the answer of \<open>client.Get\<close> to a URL (an error,
  or a response whose body \<open>ioutil.ReadAll\<close> either fails to read or returns), the
  result of \<open>json.Unmarshal\<close> on a byte string and a target struct (an error, or the
  struct as filled in; after an error the program does not read the struct), the clock,
  and the result of \<open>cw.PutMetricData\<close>. The deferred closing of the response body
  is not recorded.
\<close>

record tick_env =
  client_Get :: "string \<Rightarrow> error + (error + string)"
  json_Unmarshal :: "string \<Rightarrow> Health \<Rightarrow> error + Health"
  time_Now :: time
  cw_PutMetricData :: "PutMetricDataInput \<Rightarrow> error option"

section \<open>The sink: \<open>reportUnhealtyCount\<close>\<close>

text \<open>The request literal built at lines 202 to 223.\<close>

definition params :: "config \<Rightarrow> time \<Rightarrow> real \<Rightarrow> PutMetricDataInput" where
  "params cfg now count =
     \<lparr>MetricData =
        [\<lparr>MetricName = ''UnhealthyCount'',
          Dimensions = [\<lparr>Name = ''By cluster'', Value = etcdName cfg\<rparr>],
          StatisticValues =
            \<lparr>Maximum = count, Minimum = count, SampleCount = 1, Sum = count\<rparr>,
          Timestamp = now,
          Unit = ''Count''\<rparr>],
      Namespace = namespace cfg\<rparr>"

definition reportUnhealtyCount :: "config \<Rightarrow> tick_env \<Rightarrow> real \<Rightarrow> effect list" where
  "reportUnhealtyCount cfg env count =
     [LogPrintf (if count > 0 then ''[INFO] etcd IS NOT healthy''
                 else ''[INFO] etcd is healthy'') []]
     @ (let p = params cfg (time_Now env) count;
            err = cw_PutMetricData env p
        in PutMetricData p err
           # (case err of
                Some e \<Rightarrow> [LogPrintln (Error_msg e)]
              | None \<Rightarrow> []))"

section \<open>The probe: \<open>checkEtcdHealth\<close>\<close>

definition checkEtcdHealth :: "config \<Rightarrow> tick_env \<Rightarrow> effect list" where
  "checkEtcdHealth cfg env =
     (let url = address cfg @ ''/health'' in
      HttpGet url #
      (case client_Get env url of
         Inl err \<Rightarrow>
           LogPrintf ''[ERROR] Failed to connect to etcd: %s'' [AErr err]
           # reportUnhealtyCount cfg env 1
       | Inr resp \<Rightarrow>
           (case resp of
              Inl err \<Rightarrow>
                LogPrintf ''[ERROR] Failed to get etcd health: %s'' [AErr err]
                # reportUnhealtyCount cfg env 1
            | Inr buff \<Rightarrow>
                (case json_Unmarshal env buff zero_Health of
                   Inl err \<Rightarrow>
                     LogPrintf ''[ERROR] Invalid health response payload: %s'' [AErr err]
                     # reportUnhealtyCount cfg env 1
                 | Inr status \<Rightarrow>
                     (if IsHealthy status then reportUnhealtyCount cfg env 0
                      else reportUnhealtyCount cfg env 1)))))"

section \<open>The scheduler: \<open>main\<close>\<close>

text \<open>
  What \<open>main\<close> reads while it configures itself: the environment variables
  (\<open>os.Getenv\<close> gives the empty string for an unset one), \<open>strconv.Atoi\<close>, the
  outcome of \<open>flag.Parse\<close> (the exit status when it rejects the command line, since the
  default flag set exits on error, or else the values of the flags that were given), and
  whether the TLS files load.
\<close>

record cmdline =
  flag_interval :: "64 word option"
  flag_address :: "string option"
  flag_ca_file :: "string option"
  flag_cert_file :: "string option"
  flag_key_file :: "string option"
  flag_name :: "string option"
  flag_namespace :: "string option"
  flag_region :: "string option"

record os_env =
  Getenv :: "string \<Rightarrow> string"
  Atoi :: "string \<Rightarrow> error + 64 word"
  flag_Parse :: "int + cmdline"
  LoadX509KeyPair :: "string \<Rightarrow> string \<Rightarrow> error option"
  ReadFile :: "string \<Rightarrow> error option"

text \<open>
  How a run ends: the process exits with a status, it panics, or (the list of events
  being used up) it is still blocked in the \<open>select\<close>.
\<close>

datatype outcome = Exit int | Panic string | Waiting

text \<open>
  What the \<open>select\<close> of the main loop receives in one iteration: a value from
  \<open>ticker.C\<close> (with what the tick it starts will read from the outside), or a signal
  from \<open>signalCh\<close>.
\<close>

datatype event = TickerC tick_env | SignalCh os_Signal

text \<open>The pattern \<open>d := "..."; if v := os.Getenv(name); v != "" { d = v }\<close>.\<close>

definition envDefault :: "os_env \<Rightarrow> string \<Rightarrow> string \<Rightarrow> string" where
  "envDefault os name dflt = (let v = Getenv os name in if v \<noteq> [] then v else dflt)"

text \<open>The value of a flag after \<open>flag.Parse\<close>: the one given, or the default.\<close>

definition flagValue :: "'a option \<Rightarrow> 'a \<Rightarrow> 'a" where
  "flagValue given dflt = (case given of Some v \<Rightarrow> v | None \<Rightarrow> dflt)"

text \<open>
  Lines 35 to 132: either the process ends (\<open>log.Fatal\<close> exits with status 1 after
  logging) or the configuration is complete.
\<close>

definition configure :: "os_env \<Rightarrow> (outcome \<times> effect list) + config" where
  "configure os =
     (let i = Getenv os ''CHECK_INTERVAL'' in
      case (if i \<noteq> [] then Atoi os i else Inr 60) of
        Inl err \<Rightarrow> Inl (Exit 1, [LogFatal err])
      | Inr defaultInterval \<Rightarrow>
          (case flag_Parse os of
             Inl status \<Rightarrow> Inl (Exit status, [])
           | Inr cl \<Rightarrow>
               (let cfg = \<lparr>interval = flagValue (flag_interval cl) defaultInterval,
                          address = flagValue (flag_address cl)
                            (envDefault os ''ETCD_ADVERTISE_CLIENT_URLS''
                               ''https://127.0.0.1:2379''),
                          etcdName = flagValue (flag_name cl)
                            (envDefault os ''ETCD_NAME'' ''etcd''),
                          namespace = flagValue (flag_namespace cl)
                            (envDefault os ''METRIC_NAMESPACE'' ''etcd''),
                          awsRegion = flagValue (flag_region cl)
                            (envDefault os ''AWS_REGION'' ''us-east-1'')\<rparr>;
                    caFile = flagValue (flag_ca_file cl)
                               (envDefault os ''ETCDMON_CA_FILE'' []);
                    certFile = flagValue (flag_cert_file cl)
                                 (envDefault os ''ETCDMON_CERT_FILE'' []);
                    keyFile = flagValue (flag_key_file cl)
                                (envDefault os ''ETCDMON_KEY_FILE'' [])
                in case LoadX509KeyPair os certFile keyFile of
                     Some err \<Rightarrow> Inl (Exit 1, [LogFatal err])
                   | None \<Rightarrow>
                       (case ReadFile os caFile of
                          Some err \<Rightarrow> Inl (Exit 1, [LogFatal err])
                        | None \<Rightarrow> Inr cfg))))"

text \<open>Lines 134 to 141.\<close>

definition banner :: "config \<Rightarrow> effect list" where
  "banner cfg =
     [FmtPrintln ''==> etcd Monitor Configuration:'',
      FmtPrintln [],
      FmtPrintf (CHR 0x09 # ''      Check interval: %d (seconds)'' @ [CHR 0x0A])
        [AInt (interval cfg)],
      FmtPrintf (CHR 0x09 # ''        etcd Address: %s'' @ [CHR 0x0A]) [AStr (address cfg)],
      FmtPrintf (CHR 0x09 # ''           etcd Name: %s'' @ [CHR 0x0A]) [AStr (etcdName cfg)],
      FmtPrintf (CHR 0x09 # ''CloudWatch Namespace: %s'' @ [CHR 0x0A])
        [AStr (namespace cfg)],
      FmtPrintf (CHR 0x09 # ''          AWS Region: %s'' @ [CHR 0x0A])
        [AStr (awsRegion cfg)],
      FmtPrintln []]"

text \<open>
  Lines 149 to 160. The loop never ends by itself: it runs a tick for every value from
  the ticker and leaves through \<open>os.Exit(0)\<close> on the first value from \<open>signalCh\<close>.
  The effects of the events are returned in order; what follows a signal is never read.
\<close>

fun main_loop :: "config \<Rightarrow> event list \<Rightarrow> outcome \<times> effect list" where
  "main_loop cfg [] = (Waiting, [])"
| "main_loop cfg (TickerC env # evs) =
     (let (out, tr) = main_loop cfg evs in (out, checkEtcdHealth cfg env @ tr))"
| "main_loop cfg (SignalCh s # evs) =
     (Exit 0, [LogPrintf ''[DEBUG] receiving signal: %q'' [ASig s], TickerStop])"

text \<open>\<open>time.Second\<close>, in nanoseconds.\<close>

definition Second :: "64 word" where
  "Second = 1000000000"

text \<open>
  Lines 134 to 160. \<open>time.Duration(*interval) * time.Second\<close> is an \<open>int64\<close> product
  and wraps around; \<open>time.NewTicker\<close> panics on a duration that is not positive.
  \<open>signal.Notify(signalCh)\<close> names no signal.
\<close>

definition run :: "config \<Rightarrow> tick_env \<Rightarrow> event list \<Rightarrow> outcome \<times> effect list" where
  "run cfg env0 evs =
     (let first = banner cfg @ checkEtcdHealth cfg env0;
          d = interval cfg * Second
      in if sint d \<le> 0
         then (Panic ''non-positive interval for NewTicker'', first @ [NewTicker d])
         else (let (out, tr) = main_loop cfg evs
               in (out, first @ [NewTicker d, SignalNotify []] @ tr)))"

definition main :: "os_env \<Rightarrow> tick_env \<Rightarrow> event list \<Rightarrow> outcome \<times> effect list" where
  "main os env0 evs =
     (case configure os of
        Inl stop \<Rightarrow> stop
      | Inr cfg \<Rightarrow> run cfg env0 evs)"

section \<open>Decoding the health payload\<close>

text \<open>
  \<open>encoding/json\<close> is the Go standard library, not a part of the repository, and the
  probe takes its \<open>Unmarshal\<close> from the environment. For the payloads whose handling
  rests on how a JSON object is decoded into the struct \<open>Health\<close>, the documented
  rules of \<open>Unmarshal\<close> for a struct target are written out here, over a JSON text
  that is already parsed: the keys of an object are matched with the name in the
  field's tag, \<open>health\<close>, exactly or ignoring the case of ASCII letters; a key that
  matches no field is skipped with its value; the members are handled in their order,
  so a later match overwrites an earlier one, and a member whose value cannot be stored
  fails the call; the literal \<open>null\<close> leaves the target as it is; any other JSON
  value that is not an object is an error. The two things left
  open are parameters: \<open>parse\<close>, the syntax check that turns the bytes into a JSON
  value or an error, and \<open>store\<close>, how the value of a matching member (which the
  option \<open>,string\<close> expects to be a quoted boolean) is stored into the \<open>bool\<close>
  field or refused.
\<close>

datatype json =
    JNull
  | JBool bool
  | JNumber string
  | JString string
  | JArray "json list"
  | JObject "(string \<times> json) list"

text \<open>A byte with an ASCII lower-case letter folded to its upper-case one.\<close>

definition foldByte :: "char \<Rightarrow> nat" where
  "foldByte c = (let n = of_char c in if 97 \<le> n \<and> n \<le> 122 then n - 32 else n)"

definition fieldMatch :: "string \<Rightarrow> bool" where
  "fieldMatch key = (map foldByte key = map foldByte ''health'')"

fun decodeMembers ::
  "(json \<Rightarrow> bool \<Rightarrow> error + bool) \<Rightarrow> (string \<times> json) list \<Rightarrow> Health \<Rightarrow> error + Health"
where
  "decodeMembers store [] v = Inr v"
| "decodeMembers store ((key, val) # kvs) v =
     (if fieldMatch key
      then (case store val (IsHealthy v) of
              Inl err \<Rightarrow> Inl err
            | Inr b \<Rightarrow> decodeMembers store kvs (v\<lparr>IsHealthy := b\<rparr>))
      else decodeMembers store kvs v)"

fun decodeValue ::
  "(json \<Rightarrow> bool \<Rightarrow> error + bool) \<Rightarrow> json \<Rightarrow> Health \<Rightarrow> error + Health"
where
  "decodeValue store (JObject kvs) v = decodeMembers store kvs v"
| "decodeValue store JNull v = Inr v"
| "decodeValue store _ v =
     Inl (Error ''json: cannot unmarshal into Go value of type main.Health'')"

definition Unmarshal ::
  "(string \<Rightarrow> error + json) \<Rightarrow> (json \<Rightarrow> bool \<Rightarrow> error + bool)
     \<Rightarrow> string \<Rightarrow> Health \<Rightarrow> error + Health"
where
  "Unmarshal parse store data v =
     (case parse data of
        Inl err \<Rightarrow> Inl err
      | Inr j \<Rightarrow> decodeValue store j v)"

section \<open>Reading a run\<close>

text \<open>The calls of \<open>cw.PutMetricData\<close> in a list of effects, each with its result.\<close>

fun puts :: "effect list \<Rightarrow> (PutMetricDataInput \<times> error option) list" where
  "puts [] = []"
| "puts (PutMetricData p r # tr) = (p, r) # puts tr"
| "puts (_ # tr) = puts tr"

text \<open>The requests that the backend accepted.\<close>

fun accepted :: "(PutMetricDataInput \<times> error option) list \<Rightarrow> PutMetricDataInput list" where
  "accepted [] = []"
| "accepted ((p, None) # cs) = p # accepted cs"
| "accepted ((p, Some e) # cs) = accepted cs"

text \<open>The URLs requested in a list of effects.\<close>

fun gets :: "effect list \<Rightarrow> string list" where
  "gets [] = []"
| "gets (HttpGet url # tr) = url # gets tr"
| "gets (_ # tr) = gets tr"

text \<open>The durations with which a ticker was requested.\<close>

fun tickers :: "effect list \<Rightarrow> 64 word list" where
  "tickers [] = []"
| "tickers (NewTicker d # tr) = d # tickers tr"
| "tickers (_ # tr) = tickers tr"

text \<open>A request with the timestamps of its data points set to a fixed value.\<close>

definition untimed :: "PutMetricDataInput \<Rightarrow> PutMetricDataInput" where
  "untimed p = p\<lparr>MetricData := map (\<lambda>d. d\<lparr>Timestamp := 0\<rparr>) (MetricData p)\<rparr>"

text \<open>
  The outcome of a probe in the words of the specification: the GET failed, the body
  could not be read, the payload could not be decoded, or a health boolean was decoded.
\<close>

datatype probe_outcome =
    TransportFailure
  | UnreadableBody
  | UndecodablePayload
  | Decoded bool

definition observed :: "config \<Rightarrow> tick_env \<Rightarrow> probe_outcome" where
  "observed cfg env =
     (case client_Get env (address cfg @ ''/health'') of
        Inl err \<Rightarrow> TransportFailure
      | Inr (Inl err) \<Rightarrow> UnreadableBody
      | Inr (Inr buff) \<Rightarrow>
          (case json_Unmarshal env buff zero_Health of
             Inl err \<Rightarrow> UndecodablePayload
           | Inr status \<Rightarrow> Decoded (IsHealthy status)))"

text \<open>
  The count the specification gives an outcome: \<open>0.0\<close> for a decoded \<open>true\<close>,
  \<open>1.0\<close> for everything else.
\<close>

fun spec_count :: "probe_outcome \<Rightarrow> real" where
  "spec_count (Decoded True) = 0"
| "spec_count _ = 1"

text \<open>
  \<open>signal.Notify(c, sig...)\<close> relays the listed signals to the channel, and all
  incoming signals when none is listed.
\<close>

definition relayed :: "os_Signal list \<Rightarrow> os_Signal \<Rightarrow> bool" where
  "relayed sigs s = (sigs = [] \<or> s \<in> set sigs)"

section \<open>The channels of the loop\<close>

text \<open>
  \<open>main_loop\<close> takes the values that the \<open>select\<close> receives as given. Where they come
  from is written out here. \<open>signalCh\<close> is made with room for one signal (line 35) and
  \<open>ticker.C\<close> has room for one tick; the runtime sends to both without blocking, so a
  tick or a signal that finds its channel full is dropped. The \<open>select\<close> of lines 150
  to 159 blocks while neither channel holds a value, takes the value of the one that
  does, and, when both do, takes either: Go chooses among the ready cases at random,
  and the choice is an input here. The call \<open>checkEtcdHealth()\<close> of the ticker case
  takes time: between its start and its return the outside goes on, and the loop is not
  at its \<open>select\<close>.
\<close>

datatype pick = PickTicker | PickSignal

text \<open>
  What can happen next: the timer fires, a signal reaches the process, the main
  goroutine executes the \<open>select\<close> (with the choice it makes if both cases are ready,
  and with what a tick started now will read from the outside), or the running call of
  \<open>checkEtcdHealth\<close> returns.
\<close>

datatype move =
    TimerFires
  | SignalArrives os_Signal
  | Select pick tick_env
  | TickReturns

text \<open>What came of a move.\<close>

datatype happening =
    TickQueued
  | TickDropped
  | SignalQueued os_Signal
  | SignalDropped os_Signal
  | TickStarted tick_env
  | TickFinished tick_env
  | SignalTaken os_Signal

text \<open>
  The two channels, and the tick that is in flight, if one is.
\<close>

record sched =
  ticker_C :: bool
  signal_Ch :: "os_Signal option"
  running :: "tick_env option"

text \<open>The loop as \<open>main\<close> enters it: both channels empty, no tick running.\<close>

definition idle :: sched where
  "idle = \<lparr>ticker_C = False, signal_Ch = None, running = None\<rparr>"

fun step :: "move \<Rightarrow> sched \<Rightarrow> happening option \<times> sched" where
  "step TimerFires st =
     (if ticker_C st then (Some TickDropped, st)
      else (Some TickQueued, st\<lparr>ticker_C := True\<rparr>))"
| "step (SignalArrives s) st =
     (case signal_Ch st of
        Some queued \<Rightarrow> (Some (SignalDropped s), st)
      | None \<Rightarrow> (Some (SignalQueued s), st\<lparr>signal_Ch := Some s\<rparr>))"
| "step TickReturns st =
     (case running st of
        Some env \<Rightarrow> (Some (TickFinished env), st\<lparr>running := None\<rparr>)
      | None \<Rightarrow> (None, st))"
| "step (Select p env) st =
     (case running st of
        Some inflight \<Rightarrow> (None, st)
      | None \<Rightarrow>
          (case signal_Ch st of
             None \<Rightarrow>
               (if ticker_C st
                then (Some (TickStarted env), st\<lparr>ticker_C := False, running := Some env\<rparr>)
                else (None, st))
           | Some s \<Rightarrow>
               (if ticker_C st \<and> p = PickTicker
                then (Some (TickStarted env), st\<lparr>ticker_C := False, running := Some env\<rparr>)
                else (Some (SignalTaken s), st\<lparr>signal_Ch := None\<rparr>))))"

text \<open>The signal case ends the process: nothing happens after it.\<close>

fun stops :: "happening \<Rightarrow> bool" where
  "stops (SignalTaken s) = True"
| "stops _ = False"

fun exec :: "move list \<Rightarrow> sched \<Rightarrow> happening list" where
  "exec [] st = []"
| "exec (m # ms) st =
     (let (h, st') = step m st in
      case h of
        None \<Rightarrow> exec ms st'
      | Some x \<Rightarrow> x # (if stops x then [] else exec ms st'))"

text \<open>
  The values the \<open>select\<close> has received and whose case has run, in order: the input
  of \<open>main_loop\<close>.
\<close>

fun events_of :: "happening list \<Rightarrow> event list" where
  "events_of [] = []"
| "events_of (TickFinished env # hs) = TickerC env # events_of hs"
| "events_of (SignalTaken s # hs) = SignalCh s # events_of hs"
| "events_of (_ # hs) = events_of hs"

text \<open>The ticks started, and the ticks finished.\<close>

fun starts :: "happening list \<Rightarrow> tick_env list" where
  "starts [] = []"
| "starts (TickStarted env # hs) = env # starts hs"
| "starts (_ # hs) = starts hs"

fun finished :: "happening list \<Rightarrow> tick_env list" where
  "finished [] = []"
| "finished (TickFinished env # hs) = env # finished hs"
| "finished (_ # hs) = finished hs"

text \<open>A tick is started after a signal has reached the process.\<close>

fun started_after_arrival :: "happening list \<Rightarrow> bool" where
  "started_after_arrival [] = False"
| "started_after_arrival (SignalQueued s # hs) = (starts hs \<noteq> [])"
| "started_after_arrival (_ # hs) = started_after_arrival hs"

section \<open>Scenarios\<close>

text \<open>Concrete inputs on which the theorems below are instantiated.\<close>

text \<open>
  A command line that names the three TLS files and nothing else, in an empty
  environment where the files load: the built-in defaults apply.
\<close>

definition plain_cmdline :: cmdline where
  "plain_cmdline =
     \<lparr>flag_interval = None, flag_address = None,
      flag_ca_file = Some ''/etc/etcd/ca.pem'',
      flag_cert_file = Some ''/etc/etcd/client.pem'',
      flag_key_file = Some ''/etc/etcd/client-key.pem'',
      flag_name = None, flag_namespace = None, flag_region = None\<rparr>"

definition plain_os :: os_env where
  "plain_os =
     \<lparr>Getenv = (\<lambda>name. []),
      Atoi = (\<lambda>s. Inl (Error ''strconv.Atoi: invalid syntax'')),
      flag_Parse = Inr plain_cmdline,
      LoadX509KeyPair = (\<lambda>cert key. None),
      ReadFile = (\<lambda>file. None)\<rparr>"

definition plain_cfg :: config where
  "plain_cfg =
     \<lparr>interval = 60, address = ''https://127.0.0.1:2379'', etcdName = ''etcd'',
      namespace = ''etcd'', awsRegion = ''us-east-1''\<rparr>"

text \<open>The same with \<open>-interval=0\<close> on the command line.\<close>

definition zero_interval_os :: os_env where
  "zero_interval_os = plain_os\<lparr>flag_Parse := Inr (plain_cmdline\<lparr>flag_interval := Some 0\<rparr>)\<rparr>"

definition zero_interval_cfg :: config where
  "zero_interval_cfg = plain_cfg\<lparr>interval := 0\<rparr>"

text \<open>The same with \<open>-interval=-5\<close>.\<close>

definition negative_interval_os :: os_env where
  "negative_interval_os =
     plain_os\<lparr>flag_Parse := Inr (plain_cmdline\<lparr>flag_interval := Some (- 5)\<rparr>)\<rparr>"

definition negative_interval_cfg :: config where
  "negative_interval_cfg = plain_cfg\<lparr>interval := - 5\<rparr>"

text \<open>
  A decoder for the scenarios: a table for the syntax of the five bodies used, and a
  \<open>store\<close> that takes the quoted booleans and refuses the rest.
\<close>

definition scenario_parse :: "string \<Rightarrow> error + json" where
  \<open>scenario_parse data =
     (if data = ''{"health":"true"}'' then Inr (JObject [(''health'', JString ''true'')])
      else if data = ''{"health":"false"}'' then Inr (JObject [(''health'', JString ''false'')])
      else if data = ''{}'' then Inr (JObject [])
      else if data = ''{"HEALTH":"true"}'' then Inr (JObject [(''HEALTH'', JString ''true'')])
      else if data = ''{"status":"ok"}'' then Inr (JObject [(''status'', JString ''ok'')])
      else Inl (Error ''invalid character''))\<close>

fun quoted_bool :: "json \<Rightarrow> bool \<Rightarrow> error + bool" where
  "quoted_bool (JString s) b =
     (if s = ''true'' then Inr True
      else if s = ''false'' then Inr False
      else Inl (Error ''json: invalid use of ,string struct tag''))"
| "quoted_bool JNull b = Inr b"
| "quoted_bool _ b = Inl (Error ''json: invalid use of ,string struct tag'')"

text \<open>Ticks: the target answers with a body, and the backend takes the metric.\<close>

definition answering :: "string \<Rightarrow> time \<Rightarrow> tick_env" where
  "answering body now =
     \<lparr>client_Get = (\<lambda>url. Inr (Inr body)),
      json_Unmarshal = Unmarshal scenario_parse quoted_bool,
      time_Now = now,
      cw_PutMetricData = (\<lambda>p. None)\<rparr>"

definition healthy_env :: tick_env where
  \<open>healthy_env = answering ''{"health":"true"}'' 1000\<close>

definition unhealthy_env :: tick_env where
  \<open>unhealthy_env = answering ''{"health":"false"}'' 2000\<close>

definition empty_object_env :: tick_env where
  "empty_object_env = answering ''{}'' 3000"

text \<open>An object whose only key is another one, and one with the key in capitals.\<close>

definition other_key_env :: tick_env where
  \<open>other_key_env = answering ''{"status":"ok"}'' 6000\<close>

definition upper_key_env :: tick_env where
  \<open>upper_key_env = answering ''{"HEALTH":"true"}'' 7000\<close>

text \<open>The target refuses the connection.\<close>

definition refused_env :: tick_env where
  "refused_env = (answering [] 4000)\<lparr>client_Get := (\<lambda>url. Inl (Error ''connection refused''))\<rparr>"

text \<open>The target is healthy, and the call to the backend fails.\<close>

definition sink_down_env :: tick_env where
  "sink_down_env =
     healthy_env\<lparr>time_Now := 5000,
                 cw_PutMetricData := (\<lambda>p. Some (Error ''RequestError: send request failed''))\<rparr>"

text \<open>\<open>SIGHUP\<close>, \<open>SIGUSR1\<close> and \<open>SIGTERM\<close> on Linux.\<close>

definition SIGHUP :: os_Signal where
  "SIGHUP = Signal 1"

definition SIGUSR1 :: os_Signal where
  "SIGUSR1 = Signal 10"

definition SIGTERM :: os_Signal where
  "SIGTERM = Signal 15"

section \<open>Auxiliary facts\<close>

text \<open>
  How the readers of a run distribute over concatenation, what one call of the sink and
  one tick contribute to them, the shape of a tick (the GET, at most one error line,
  then the sink), and the values of the scenarios.
\<close>

lemma puts_append: "puts (a @ b) = puts a @ puts b"
  by (induction a rule: puts.induct) simp_all

lemma gets_append: "gets (a @ b) = gets a @ gets b"
  by (induction a rule: gets.induct) simp_all

lemma tickers_append: "tickers (a @ b) = tickers a @ tickers b"
  by (induction a rule: tickers.induct) simp_all

lemma puts_reportUnhealtyCount:
  "puts (reportUnhealtyCount cfg env count) =
     [(params cfg (time_Now env) count,
       cw_PutMetricData env (params cfg (time_Now env) count))]"
  by (simp add: reportUnhealtyCount_def Let_def split: option.split)

lemma checkEtcdHealth_shape:
  "\<exists>pre. puts pre = [] \<and> tickers pre = [] \<and> gets pre = [address cfg @ ''/health''] \<and>
     checkEtcdHealth cfg env = pre @ reportUnhealtyCount cfg env (spec_count (observed cfg env))"
proof -
  define url where "url = address cfg @ ''/health''"
  define sink where "sink = reportUnhealtyCount cfg env"
  have "\<exists>logs. puts logs = [] \<and> tickers logs = [] \<and> gets logs = [] \<and>
          checkEtcdHealth cfg env = (HttpGet url # logs) @ sink (spec_count (observed cfg env))"
  proof (cases "observed cfg env")
    case TransportFailure
    then obtain err where "client_Get env url = Inl err"
      by (auto simp: observed_def url_def split: sum.splits)
    then have "checkEtcdHealth cfg env =
        (HttpGet url # [LogPrintf ''[ERROR] Failed to connect to etcd: %s'' [AErr err]]) @ sink 1"
      by (simp add: checkEtcdHealth_def url_def sink_def)
    with TransportFailure show ?thesis by (intro exI conjI) (auto simp del: append.simps)
  next
    case UnreadableBody
    then obtain err where "client_Get env url = Inr (Inl err)"
      by (auto simp: observed_def url_def split: sum.splits)
    then have "checkEtcdHealth cfg env =
        (HttpGet url # [LogPrintf ''[ERROR] Failed to get etcd health: %s'' [AErr err]]) @ sink 1"
      by (simp add: checkEtcdHealth_def url_def sink_def)
    with UnreadableBody show ?thesis by (intro exI conjI) (auto simp del: append.simps)
  next
    case UndecodablePayload
    then obtain buff err where "client_Get env url = Inr (Inr buff)"
      and "json_Unmarshal env buff zero_Health = Inl err"
      by (auto simp: observed_def url_def split: sum.splits)
    then have "checkEtcdHealth cfg env =
        (HttpGet url # [LogPrintf ''[ERROR] Invalid health response payload: %s'' [AErr err]])
        @ sink 1"
      by (simp add: checkEtcdHealth_def url_def sink_def)
    with UndecodablePayload show ?thesis by (intro exI conjI) (auto simp del: append.simps)
  next
    case (Decoded b)
    then obtain buff status where "client_Get env url = Inr (Inr buff)"
      and "json_Unmarshal env buff zero_Health = Inr status" and "IsHealthy status = b"
      by (auto simp: observed_def url_def split: sum.splits)
    then have "checkEtcdHealth cfg env = (HttpGet url # []) @ sink (if b then 0 else 1)"
      by (simp add: checkEtcdHealth_def url_def sink_def)
    with Decoded show ?thesis by (intro exI conjI) (auto simp del: append.simps)
  qed
  then obtain logs where "puts logs = []" "tickers logs = []" "gets logs = []"
    and "checkEtcdHealth cfg env = (HttpGet url # logs) @ sink (spec_count (observed cfg env))"
    by blast
  then show ?thesis
    by (intro exI [of _ "HttpGet url # logs"]) (simp add: url_def sink_def)
qed

lemma puts_checkEtcdHealth:
  "puts (checkEtcdHealth cfg env) =
     [(params cfg (time_Now env) (spec_count (observed cfg env)),
       cw_PutMetricData env (params cfg (time_Now env) (spec_count (observed cfg env))))]"
proof -
  obtain pre where "puts pre = []"
    and "checkEtcdHealth cfg env = pre @ reportUnhealtyCount cfg env (spec_count (observed cfg env))"
    using checkEtcdHealth_shape by blast
  then show ?thesis by (simp add: puts_append puts_reportUnhealtyCount)
qed

lemma spec_count_01: "spec_count out = 0 \<or> spec_count out = 1"
  by (cases out rule: spec_count.cases) simp_all

lemma duration_nonpositive:
  assumes "- 9223372036 \<le> sint (w :: 64 word)" and "sint w \<le> 0"
  shows "sint (w * Second) \<le> 0"
proof -
  have r1: "sint w * 1000000000 \<le> 0" using assms(2) by simp
  have r2: "- (2 ^ 63) \<le> sint w * 1000000000" using assms(1) by simp
  have "sint (w * 1000000000) = signed_take_bit 63 (sint w * sint (1000000000 :: 64 word))"
    by (simp add: sint_word_ariths)
  also have "sint (1000000000 :: 64 word) = 1000000000" by simp
  finally have "sint (w * 1000000000) = signed_take_bit 63 (sint w * 1000000000)" .
  also have "\<dots> = sint w * 1000000000"
    using r1 r2 by (simp add: signed_take_bit_int_eq_self)
  finally show ?thesis using r1 by (simp add: Second_def)
qed

lemma configure_plain: "configure plain_os = Inr plain_cfg"
  by (simp add: configure_def plain_os_def plain_cmdline_def plain_cfg_def flagValue_def
      envDefault_def)

lemma configure_zero: "configure zero_interval_os = Inr zero_interval_cfg"
  by (simp add: configure_def zero_interval_os_def zero_interval_cfg_def plain_os_def
      plain_cmdline_def plain_cfg_def flagValue_def envDefault_def)

lemma observed_healthy: "observed plain_cfg healthy_env = Decoded True"
  by (simp add: observed_def plain_cfg_def healthy_env_def answering_def Unmarshal_def
      scenario_parse_def zero_Health_def fieldMatch_def foldByte_def)

lemma observed_unhealthy: "observed plain_cfg unhealthy_env = Decoded False"
  by (simp add: observed_def plain_cfg_def unhealthy_env_def answering_def Unmarshal_def
      scenario_parse_def zero_Health_def fieldMatch_def foldByte_def)

lemma observed_refused: "observed cfg refused_env = TransportFailure"
  by (simp add: observed_def refused_env_def answering_def)

lemma observed_sink_down: "observed plain_cfg sink_down_env = Decoded True"
  by (simp add: observed_def plain_cfg_def sink_down_env_def healthy_env_def answering_def
      Unmarshal_def scenario_parse_def zero_Health_def fieldMatch_def foldByte_def)

lemma tickers_reportUnhealtyCount: "tickers (reportUnhealtyCount cfg env count) = []"
  by (simp add: reportUnhealtyCount_def Let_def split: option.split)

lemma gets_reportUnhealtyCount: "gets (reportUnhealtyCount cfg env count) = []"
  by (simp add: reportUnhealtyCount_def Let_def split: option.split)

lemma banner_reads:
  "puts (banner cfg) = []" "gets (banner cfg) = []" "tickers (banner cfg) = []"
  by (simp_all add: banner_def)

lemma gets_checkEtcdHealth: "gets (checkEtcdHealth cfg env) = [address cfg @ ''/health'']"
proof -
  obtain pre where "gets pre = [address cfg @ ''/health'']"
    and "checkEtcdHealth cfg env = pre @ reportUnhealtyCount cfg env (spec_count (observed cfg env))"
    using checkEtcdHealth_shape by blast
  then show ?thesis by (simp add: gets_append gets_reportUnhealtyCount)
qed

lemma tickers_checkEtcdHealth: "tickers (checkEtcdHealth cfg env) = []"
proof -
  obtain pre where "tickers pre = []"
    and "checkEtcdHealth cfg env = pre @ reportUnhealtyCount cfg env (spec_count (observed cfg env))"
    using checkEtcdHealth_shape by blast
  then show ?thesis by (simp add: tickers_append tickers_reportUnhealtyCount)
qed

lemma main_loop_prefix_ticks:
  "main_loop cfg (map TickerC envs @ evs) =
     (fst (main_loop cfg evs), concat (map (checkEtcdHealth cfg) envs) @ snd (main_loop cfg evs))"
  by (induction envs) (simp_all add: case_prod_beta)

lemma untimed_params: "untimed (params cfg t c) = params cfg 0 c"
  by (simp add: untimed_def params_def)

lemma decodeMembers_no_match:
  "\<forall>key \<in> fst ` set kvs. \<not> fieldMatch key \<Longrightarrow> decodeMembers store kvs v = Inr v"
  by (induction kvs) auto

lemma scenario_times:
  "time_Now healthy_env = 1000" "time_Now unhealthy_env = 2000"
  "time_Now empty_object_env = 3000" "time_Now refused_env = 4000"
  "time_Now sink_down_env = 5000"
  by (simp_all add: healthy_env_def unhealthy_env_def empty_object_env_def refused_env_def
      sink_down_env_def answering_def)

lemma scenario_sinks:
  "cw_PutMetricData healthy_env p = None" "cw_PutMetricData unhealthy_env p = None"
  "cw_PutMetricData empty_object_env p = None" "cw_PutMetricData refused_env p = None"
  "cw_PutMetricData sink_down_env p = Some (Error ''RequestError: send request failed'')"
  by (simp_all add: healthy_env_def unhealthy_env_def empty_object_env_def refused_env_def
      sink_down_env_def answering_def)

text \<open>
  The loop over its channels: the signal case is the last thing that happens, the
  values received before it are ticks, and when it is taken every tick that was started
  has returned.
\<close>

lemma exec_signal_last:
  "SignalTaken s \<in> set (exec moves st) \<Longrightarrow>
     \<exists>pre. exec moves st = pre @ [SignalTaken s] \<and> (\<forall>h \<in> set pre. \<not> stops h)"
proof (induction moves arbitrary: st)
  case Nil
  then show ?case by simp
next
  case (Cons m ms)
  obtain h st' where hs: "step m st = (h, st')" by (cases "step m st")
  show ?case
  proof (cases h)
    case None
    with Cons hs show ?thesis by simp
  next
    case (Some x)
    show ?thesis
    proof (cases "stops x")
      case True
      with Some hs Cons.prems have "exec (m # ms) st = [] @ [SignalTaken s]" 
        by (cases x) auto
      then show ?thesis by (metis empty_iff list.set(1))
    next
      case False
      with Some hs Cons.prems have "SignalTaken s \<in> set (exec ms st')"
        by (cases x) auto
      then obtain pre where "exec ms st' = pre @ [SignalTaken s]" "\<forall>h \<in> set pre. \<not> stops h"
        using Cons.IH by blast
      with Some hs False have "exec (m # ms) st = (x # pre) @ [SignalTaken s] \<and> (\<forall>h \<in> set (x # pre). \<not> stops h)"
        by simp
      then show ?thesis by blast
    qed
  qed
qed

lemma events_of_no_stop:
  "\<forall>h \<in> set pre. \<not> stops h \<Longrightarrow> events_of (pre @ post) = map TickerC (finished pre) @ events_of post"
  by (induction pre rule: events_of.induct) simp_all

lemma starts_finished:
  "exec moves st = pre @ [SignalTaken s] \<Longrightarrow> \<forall>h \<in> set pre. \<not> stops h \<Longrightarrow>
     (case running st of Some env \<Rightarrow> env # starts pre | None \<Rightarrow> starts pre) = finished pre"
proof (induction moves arbitrary: st pre)
  case Nil
  then show ?case by simp
next
  case (Cons m ms)
  obtain h st' where hs: "step m st = (h, st')" by (cases "step m st")
  show ?case
  proof (cases h)
    case None
    with hs have "running st = running st'"
      by (cases m) (auto split: option.splits if_splits)
    moreover from None hs Cons.prems have "exec ms st' = pre @ [SignalTaken s]" by simp
    ultimately show ?thesis using Cons.IH [of st' pre] Cons.prems(2) by simp
  next
    case (Some x)
    show ?thesis
    proof (cases "stops x")
      case True
      with Some hs Cons.prems have "pre = []" "x = SignalTaken s" by auto
      moreover have "running st = None" using hs Some \<open>x = SignalTaken s\<close>
        by (cases m) (auto split: option.splits if_splits)
      ultimately show ?thesis by simp
    next
      case False
      with Some hs Cons.prems(1) have e: "x # exec ms st' = pre @ [SignalTaken s]" by simp
      with False obtain pre' where pre: "pre = x # pre'" and e': "exec ms st' = pre' @ [SignalTaken s]"
        by (cases pre) auto
      with Cons.prems(2) have "\<forall>h \<in> set pre'. \<not> stops h" by simp
      then have ih: "(case running st' of Some env \<Rightarrow> env # starts pre' | None \<Rightarrow> starts pre') = finished pre'"
        using Cons.IH e' by blast
      show ?thesis using hs Some ih pre
        by (cases m) (auto split: option.splits if_splits)
    qed
  qed
qed

lemma configure_negative: "configure negative_interval_os = Inr negative_interval_cfg"
  by (simp add: configure_def negative_interval_os_def negative_interval_cfg_def plain_os_def
      plain_cmdline_def plain_cfg_def flagValue_def envDefault_def)

lemma scenario_times2:
  "time_Now other_key_env = 6000" "time_Now upper_key_env = 7000"
  by (simp_all add: other_key_env_def upper_key_env_def answering_def)

lemma scenario_sinks2:
  "cw_PutMetricData other_key_env p = None" "cw_PutMetricData upper_key_env p = None"
  by (simp_all add: other_key_env_def upper_key_env_def answering_def)

lemma exec_witness:
  "exec [TimerFires, Select PickTicker healthy_env, SignalArrives SIGTERM, TickReturns,
         Select PickTicker unhealthy_env, TimerFires, Select PickTicker unhealthy_env] idle =
     [TickQueued, TickStarted healthy_env, SignalQueued SIGTERM, TickFinished healthy_env,
      SignalTaken SIGTERM]"
  by (simp add: idle_def)

section \<open>The claims\<close>

text \<open>
  Claim C1. In every tick the count handed to \<open>reportUnhealtyCount\<close>, and so the one
  in the request sent to the backend, is \<open>0.0\<close> when the GET succeeded, the body was
  read, the payload was decoded and its health boolean is true, and \<open>1.0\<close> in every
  other case (boolean false, transport failure, unreadable body, undecodable payload).
  Nothing before that call reaches the sink, and there is no third value.
\<close>

theorem checkEtcdHealth_count:
  "(\<exists>pre. puts pre = [] \<and>
      checkEtcdHealth cfg env = pre @ reportUnhealtyCount cfg env (spec_count (observed cfg env)))
   \<and> map fst (puts (checkEtcdHealth cfg env)) =
       [params cfg (time_Now env) (spec_count (observed cfg env))]"
  using checkEtcdHealth_shape [of cfg env] by (auto simp: puts_checkEtcdHealth)

theorem checkEtcdHealth_count_witness:
  "map fst (puts (checkEtcdHealth plain_cfg healthy_env)) = [params plain_cfg 1000 0]
   \<and> map fst (puts (checkEtcdHealth plain_cfg unhealthy_env)) = [params plain_cfg 2000 1]
   \<and> map fst (puts (checkEtcdHealth plain_cfg refused_env)) = [params plain_cfg 4000 1]"
  using checkEtcdHealth_count [of plain_cfg healthy_env]
    checkEtcdHealth_count [of plain_cfg unhealthy_env]
    checkEtcdHealth_count [of plain_cfg refused_env]
  by (simp add: observed_healthy observed_unhealthy observed_refused scenario_times)

text \<open>
  Claim C2. One run of \<open>checkEtcdHealth\<close> calls \<open>cw.PutMetricData\<close> exactly once,
  whatever the probe saw and whatever the call returns, and the request it passes is the
  one built from the count \<open>0.0\<close> or from the count \<open>1.0\<close>. Hence a loop that has
  completed \<open>n\<close> ticks has made \<open>n\<close> calls.
\<close>

theorem tick_emits_once:
  "(\<exists>p r. puts (checkEtcdHealth cfg env) = [(p, r)]
      \<and> (p = params cfg (time_Now env) 0 \<or> p = params cfg (time_Now env) 1))
   \<and> length (puts (snd (main_loop cfg (map TickerC envs)))) = length envs"
proof
  show "\<exists>p r. puts (checkEtcdHealth cfg env) = [(p, r)]
      \<and> (p = params cfg (time_Now env) 0 \<or> p = params cfg (time_Now env) 1)"
    using spec_count_01 [of "observed cfg env"] by (auto simp: puts_checkEtcdHealth)
  show "length (puts (snd (main_loop cfg (map TickerC envs)))) = length envs"
    by (induction envs) (simp_all add: case_prod_beta puts_append puts_checkEtcdHealth)
qed

theorem tick_emits_once_witness:
  "puts (checkEtcdHealth plain_cfg sink_down_env) =
     [(params plain_cfg 5000 0, Some (Error ''RequestError: send request failed''))]
   \<and> length (puts (snd (main_loop plain_cfg (map TickerC [healthy_env, refused_env])))) = 2"
  using tick_emits_once [of plain_cfg sink_down_env "[healthy_env, refused_env]"]
  by (simp add: puts_checkEtcdHealth observed_sink_down scenario_times scenario_sinks)

text \<open>
  Claim C3, as amended. The program has no check of the sign of the interval: whether
  configuration completes rests on \<open>CHECK_INTERVAL\<close> being unset or a number, on the
  command line being accepted and on the TLS files loading, never on the value of the
  interval. So for a configured interval that is zero or negative (down to
  \<open>-9223372036\<close> seconds, below which the product with \<open>time.Second\<close> leaves the
  range of \<open>int64\<close>), configuration completes with that interval, the first
  probe-and-report cycle runs, and only then does the process abort:
  \<open>time.NewTicker\<close> panics on the duration that is not positive. No event of the loop
  is ever handled. The claim as stated, that startup aborts before the first cycle,
  fails at \<open>-interval=0\<close>: the counterexample follows the witness.
\<close>

theorem nonpositive_interval_panics_after_first_check:
  assumes "Getenv os ''CHECK_INTERVAL'' = [] \<and> d = 60
           \<or> Getenv os ''CHECK_INTERVAL'' \<noteq> [] \<and> Atoi os (Getenv os ''CHECK_INTERVAL'') = Inr d"
    and "flag_Parse os = Inr cl"
    and "LoadX509KeyPair os
           (flagValue (flag_cert_file cl) (envDefault os ''ETCDMON_CERT_FILE'' []))
           (flagValue (flag_key_file cl) (envDefault os ''ETCDMON_KEY_FILE'' [])) = None"
    and "ReadFile os (flagValue (flag_ca_file cl) (envDefault os ''ETCDMON_CA_FILE'' [])) = None"
    and "v = flagValue (flag_interval cl) d"
    and "sint v \<le> 0" and "- 9223372036 \<le> sint v"
  shows "\<exists>cfg. configure os = Inr cfg \<and> interval cfg = v
           \<and> main os env0 evs =
               (Panic ''non-positive interval for NewTicker'',
                banner cfg @ checkEtcdHealth cfg env0 @ [NewTicker (v * Second)])"
proof -
  define cfg where "cfg =
    \<lparr>interval = v,
     address = flagValue (flag_address cl)
       (envDefault os ''ETCD_ADVERTISE_CLIENT_URLS'' ''https://127.0.0.1:2379''),
     etcdName = flagValue (flag_name cl) (envDefault os ''ETCD_NAME'' ''etcd''),
     namespace = flagValue (flag_namespace cl) (envDefault os ''METRIC_NAMESPACE'' ''etcd''),
     awsRegion = flagValue (flag_region cl) (envDefault os ''AWS_REGION'' ''us-east-1'')\<rparr>"
  have c: "configure os = Inr cfg"
    using assms(1-5) by (auto simp: configure_def cfg_def Let_def)
  have i: "interval cfg = v"
    by (simp add: cfg_def)
  have "sint (interval cfg * Second) \<le> 0"
    using duration_nonpositive [of v] assms(6,7) i by simp
  then have "main os env0 evs =
      (Panic ''non-positive interval for NewTicker'',
       banner cfg @ checkEtcdHealth cfg env0 @ [NewTicker (v * Second)])"
    using c i by (simp add: main_def run_def)
  with c i show ?thesis by blast
qed

theorem nonpositive_interval_panics_after_first_check_witness:
  "configure negative_interval_os = Inr negative_interval_cfg
   \<and> sint (interval negative_interval_cfg) = - 5
   \<and> main negative_interval_os healthy_env [TickerC unhealthy_env] =
       (Panic ''non-positive interval for NewTicker'',
        banner negative_interval_cfg @ checkEtcdHealth negative_interval_cfg healthy_env
        @ [NewTicker (- 5000000000)])"
proof -
  have a: "Getenv negative_interval_os ''CHECK_INTERVAL'' = [] \<and> (60 :: 64 word) = 60
           \<or> Getenv negative_interval_os ''CHECK_INTERVAL'' \<noteq> []
             \<and> Atoi negative_interval_os (Getenv negative_interval_os ''CHECK_INTERVAL'') = Inr 60"
    by (simp add: negative_interval_os_def plain_os_def)
  have b: "flag_Parse negative_interval_os = Inr (plain_cmdline\<lparr>flag_interval := Some (- 5)\<rparr>)"
    by (simp add: negative_interval_os_def)
  have c: "LoadX509KeyPair negative_interval_os
             (flagValue (flag_cert_file (plain_cmdline\<lparr>flag_interval := Some (- 5)\<rparr>))
                (envDefault negative_interval_os ''ETCDMON_CERT_FILE'' []))
             (flagValue (flag_key_file (plain_cmdline\<lparr>flag_interval := Some (- 5)\<rparr>))
                (envDefault negative_interval_os ''ETCDMON_KEY_FILE'' [])) = None"
    by (simp add: negative_interval_os_def plain_os_def)
  have d: "ReadFile negative_interval_os
             (flagValue (flag_ca_file (plain_cmdline\<lparr>flag_interval := Some (- 5)\<rparr>))
                (envDefault negative_interval_os ''ETCDMON_CA_FILE'' [])) = None"
    by (simp add: negative_interval_os_def plain_os_def)
  have e: "(- 5 :: 64 word) = flagValue (flag_interval (plain_cmdline\<lparr>flag_interval := Some (- 5)\<rparr>)) 60"
    by (simp add: flagValue_def)
  have f: "sint (- 5 :: 64 word) \<le> 0" "- 9223372036 \<le> sint (- 5 :: 64 word)"
    by simp_all
  have g: "(5 :: 64 word) * Second = 5000000000"
    by (simp add: Second_def)
  have h: "interval negative_interval_cfg = - 5"
    by (simp add: negative_interval_cfg_def)
  show ?thesis
    using nonpositive_interval_panics_after_first_check
      [OF a b c d e f, of healthy_env "[TickerC unhealthy_env]"]
    by (auto simp: configure_negative g h)
qed

theorem zero_interval_counterexample:
  "fst (main zero_interval_os refused_env []) = Panic ''non-positive interval for NewTicker''
   \<and> gets (snd (main zero_interval_os refused_env [])) = [''https://127.0.0.1:2379/health'']
   \<and> puts (snd (main zero_interval_os refused_env [])) = [(params zero_interval_cfg 4000 1, None)]
   \<and> tickers (snd (main zero_interval_os refused_env [])) = [0]"
proof -
  have c: "interval zero_interval_cfg = 0" "address zero_interval_cfg = ''https://127.0.0.1:2379''"
    by (simp_all add: zero_interval_cfg_def plain_cfg_def)
  show ?thesis
    by (simp add: main_def configure_zero run_def gets_append puts_append tickers_append
        banner_reads gets_checkEtcdHealth puts_checkEtcdHealth tickers_checkEtcdHealth
        observed_refused scenario_times scenario_sinks c)
qed

text \<open>
  Claim C4. The request that \<open>reportUnhealtyCount\<close> sends holds one data point, with
  metric name \<open>UnhealthyCount\<close>, unit \<open>Count\<close>, the single dimension
  \<open>By cluster\<close> whose value is the configured cluster name, the configured namespace,
  the clock reading of the emission as timestamp, sample count 1 and minimum, maximum and
  sum all equal to the count passed in.
\<close>

theorem reportUnhealtyCount_datapoint:
  "\<exists>p r d dim.
     puts (reportUnhealtyCount cfg env count) = [(p, r)] \<and>
     Namespace p = namespace cfg \<and> MetricData p = [d] \<and>
     MetricName d = ''UnhealthyCount'' \<and> Unit d = ''Count'' \<and>
     Dimensions d = [dim] \<and> Name dim = ''By cluster'' \<and> Value dim = etcdName cfg \<and>
     Timestamp d = time_Now env \<and>
     SampleCount (StatisticValues d) = 1 \<and>
     Minimum (StatisticValues d) = count \<and>
     Maximum (StatisticValues d) = count \<and>
     Sum (StatisticValues d) = count"
  by (simp add: puts_reportUnhealtyCount params_def)

theorem reportUnhealtyCount_datapoint_witness:
  "puts (reportUnhealtyCount plain_cfg healthy_env 0) =
     [(\<lparr>MetricData =
          [\<lparr>MetricName = ''UnhealthyCount'',
            Dimensions = [\<lparr>Name = ''By cluster'', Value = ''etcd''\<rparr>],
            StatisticValues = \<lparr>Maximum = 0, Minimum = 0, SampleCount = 1, Sum = 0\<rparr>,
            Timestamp = 1000, Unit = ''Count''\<rparr>],
        Namespace = ''etcd''\<rparr>, None)]"
proof -
  obtain p r d dim where h:
     "puts (reportUnhealtyCount plain_cfg healthy_env 0) = [(p, r)]"
     "Namespace p = namespace plain_cfg" "MetricData p = [d]"
     "MetricName d = ''UnhealthyCount''" "Unit d = ''Count''"
     "Dimensions d = [dim]" "Name dim = ''By cluster''" "Value dim = etcdName plain_cfg"
     "Timestamp d = time_Now healthy_env"
     "SampleCount (StatisticValues d) = 1"
     "Minimum (StatisticValues d) = 0"
     "Maximum (StatisticValues d) = 0"
     "Sum (StatisticValues d) = 0"
    using reportUnhealtyCount_datapoint [of plain_cfg healthy_env 0] by blast
  have "r = None"
    using h(1) by (simp add: puts_reportUnhealtyCount scenario_sinks)
  then show ?thesis using h
    by (simp add: plain_cfg_def scenario_times)
qed

text \<open>
  Claim C5, as amended. When the \<open>select\<close> takes a signal from \<open>signalCh\<close>,
  every tick started before has returned (a tick in flight when the signal reached the
  process is not cut short), the signal is logged, the ticker is stopped, the process
  exits with status 0, and nothing happens afterwards. With a signal queued, a
  \<open>select\<close> at which no timer value is pending, or at which the ticker case is not
  picked, takes the signal; and a \<open>select\<close> starts a tick only if a timer value is
  pending and either no signal is queued or the ticker case is picked. The claim as
  stated, that no tick is started once the signal has reached the process, fails when
  the signal arrives during a tick that outlasts the interval: at the next \<open>select\<close>
  both cases are ready, and the ticker case may be picked. The counterexample follows
  the witness.
\<close>

theorem signal_taken_stops_scheduler:
  "(running st = None \<and> SignalTaken s \<in> set (exec moves st) \<longrightarrow>
      (\<exists>pre. exec moves st = pre @ [SignalTaken s]
         \<and> starts pre = finished pre
         \<and> main_loop cfg (events_of (exec moves st)) =
             (Exit 0,
              concat (map (checkEtcdHealth cfg) (finished pre))
              @ [LogPrintf ''[DEBUG] receiving signal: %q'' [ASig s], TickerStop])))
   \<and> (running st = None \<and> signal_Ch st = Some s \<and> (\<not> ticker_C st \<or> p = PickSignal) \<longrightarrow>
        fst (step (Select p env) st) = Some (SignalTaken s))
   \<and> (fst (step (Select p env) st) = Some (TickStarted env) \<longrightarrow>
        running st = None \<and> ticker_C st \<and> (signal_Ch st = None \<or> p = PickTicker))"
proof (intro conjI impI)
  assume a: "running st = None \<and> SignalTaken s \<in> set (exec moves st)"
  then obtain pre where pre: "exec moves st = pre @ [SignalTaken s]" "\<forall>h \<in> set pre. \<not> stops h"
    using exec_signal_last by blast
  have "starts pre = finished pre"
    using starts_finished [OF pre] a by simp
  moreover have "main_loop cfg (events_of (exec moves st)) =
      (Exit 0,
       concat (map (checkEtcdHealth cfg) (finished pre))
       @ [LogPrintf ''[DEBUG] receiving signal: %q'' [ASig s], TickerStop])"
    using pre by (simp add: events_of_no_stop main_loop_prefix_ticks)
  ultimately show "\<exists>pre. exec moves st = pre @ [SignalTaken s]
         \<and> starts pre = finished pre
         \<and> main_loop cfg (events_of (exec moves st)) =
             (Exit 0,
              concat (map (checkEtcdHealth cfg) (finished pre))
              @ [LogPrintf ''[DEBUG] receiving signal: %q'' [ASig s], TickerStop])"
    using pre(1) by blast
next
  assume "running st = None \<and> signal_Ch st = Some s \<and> (\<not> ticker_C st \<or> p = PickSignal)"
  then show "fst (step (Select p env) st) = Some (SignalTaken s)" by auto
next
  assume "fst (step (Select p env) st) = Some (TickStarted env)"
  then show "running st = None" by (auto split: option.splits if_splits)
next
  assume "fst (step (Select p env) st) = Some (TickStarted env)"
  then show "ticker_C st" by (auto split: option.splits if_splits)
next
  assume "fst (step (Select p env) st) = Some (TickStarted env)"
  then show "signal_Ch st = None \<or> p = PickTicker" by (auto split: option.splits if_splits)
qed

theorem signal_taken_stops_scheduler_witness:
  "exec [TimerFires, Select PickTicker healthy_env, SignalArrives SIGTERM, TickReturns,
         Select PickTicker unhealthy_env, TimerFires, Select PickTicker unhealthy_env] idle =
     [TickQueued, TickStarted healthy_env, SignalQueued SIGTERM, TickFinished healthy_env,
      SignalTaken SIGTERM]
   \<and> main_loop plain_cfg (events_of (exec
        [TimerFires, Select PickTicker healthy_env, SignalArrives SIGTERM, TickReturns,
         Select PickTicker unhealthy_env, TimerFires, Select PickTicker unhealthy_env] idle)) =
       (Exit 0,
        checkEtcdHealth plain_cfg healthy_env
        @ [LogPrintf ''[DEBUG] receiving signal: %q'' [ASig SIGTERM], TickerStop])
   \<and> fst (step (Select PickTicker unhealthy_env)
        \<lparr>ticker_C = False, signal_Ch = Some SIGTERM, running = None\<rparr>) = Some (SignalTaken SIGTERM)"
  using signal_taken_stops_scheduler
    [of idle SIGTERM
        "[TimerFires, Select PickTicker healthy_env, SignalArrives SIGTERM, TickReturns,
          Select PickTicker unhealthy_env, TimerFires, Select PickTicker unhealthy_env]"
        plain_cfg PickTicker unhealthy_env]
  by (simp add: exec_witness) (simp add: idle_def)

theorem tick_after_signal_counterexample:
  "exec [TimerFires, Select PickTicker healthy_env, TimerFires, SignalArrives SIGTERM,
         TickReturns, Select PickTicker unhealthy_env, TickReturns,
         Select PickTicker refused_env] idle =
     [TickQueued, TickStarted healthy_env, TickQueued, SignalQueued SIGTERM,
      TickFinished healthy_env, TickStarted unhealthy_env, TickFinished unhealthy_env,
      SignalTaken SIGTERM]
   \<and> started_after_arrival
       [TickQueued, TickStarted healthy_env, TickQueued, SignalQueued SIGTERM,
        TickFinished healthy_env, TickStarted unhealthy_env, TickFinished unhealthy_env,
        SignalTaken SIGTERM]
   \<and> snd (main_loop plain_cfg (events_of
       [TickQueued, TickStarted healthy_env, TickQueued, SignalQueued SIGTERM,
        TickFinished healthy_env, TickStarted unhealthy_env, TickFinished unhealthy_env,
        SignalTaken SIGTERM])) =
       checkEtcdHealth plain_cfg healthy_env @ checkEtcdHealth plain_cfg unhealthy_env
       @ [LogPrintf ''[DEBUG] receiving signal: %q'' [ASig SIGTERM], TickerStop]"
  by (simp add: idle_def)

text \<open>
  Claim C6. When the call to the backend fails in a tick, that tick has made the one
  call and no second one, the backend has accepted no request of the tick, the message
  of the error is logged as the last act of the tick, and the loop goes on with the
  next event exactly as after any other tick: the tick hands no error to the loop.
\<close>

theorem sink_failure_swallowed:
  assumes "cw_PutMetricData env (params cfg (time_Now env) (spec_count (observed cfg env)))
             = Some e"
  shows "puts (checkEtcdHealth cfg env) =
           [(params cfg (time_Now env) (spec_count (observed cfg env)), Some e)]
       \<and> accepted (puts (checkEtcdHealth cfg env)) = []
       \<and> (\<exists>pre. checkEtcdHealth cfg env =
             pre @ [PutMetricData (params cfg (time_Now env) (spec_count (observed cfg env)))
                      (Some e),
                    LogPrintln (Error_msg e)])
       \<and> main_loop cfg (TickerC env # evs) =
           (fst (main_loop cfg evs), checkEtcdHealth cfg env @ snd (main_loop cfg evs))"
proof -
  define count where "count = spec_count (observed cfg env)"
  obtain pre where eq: "checkEtcdHealth cfg env = pre @ reportUnhealtyCount cfg env count"
    using checkEtcdHealth_shape unfolding count_def by blast
  have "checkEtcdHealth cfg env =
          (pre @ [hd (reportUnhealtyCount cfg env count)])
          @ [PutMetricData (params cfg (time_Now env) count) (Some e), LogPrintln (Error_msg e)]"
    using assms by (simp add: eq reportUnhealtyCount_def Let_def count_def)
  then have "\<exists>pre. checkEtcdHealth cfg env =
          pre @ [PutMetricData (params cfg (time_Now env) count) (Some e),
                 LogPrintln (Error_msg e)]"
    by (rule exI)
  then show ?thesis
    using assms by (simp add: puts_checkEtcdHealth case_prod_beta count_def)
qed

theorem sink_failure_swallowed_witness:
  "puts (checkEtcdHealth plain_cfg sink_down_env) =
     [(params plain_cfg 5000 0, Some (Error ''RequestError: send request failed''))]
   \<and> accepted (puts (checkEtcdHealth plain_cfg sink_down_env)) = []
   \<and> main_loop plain_cfg [TickerC sink_down_env, TickerC healthy_env] =
       (Waiting, checkEtcdHealth plain_cfg sink_down_env @ checkEtcdHealth plain_cfg healthy_env)"
proof -
  have h: "cw_PutMetricData sink_down_env
             (params plain_cfg (time_Now sink_down_env)
                (spec_count (observed plain_cfg sink_down_env))) =
           Some (Error ''RequestError: send request failed'')"
    by (simp add: scenario_sinks)
  show ?thesis
    using sink_failure_swallowed [OF h, of "[TickerC healthy_env]"]
    by (simp add: observed_sink_down scenario_times)
qed

text \<open>
  Claim C7. Whenever configuration completes, the run starts with the configuration
  printout and one probe-and-report cycle (one GET, one call to the backend), and only
  then requests the ticker with the configured interval; no ticker exists before, and
  the first cycle does not depend on any event of the loop.
\<close>

theorem first_check_before_timer:
  assumes "configure os = Inr cfg"
  shows "(\<exists>rest. snd (main os env0 evs) =
            banner cfg @ checkEtcdHealth cfg env0 @ NewTicker (interval cfg * Second) # rest)
       \<and> length (gets (banner cfg @ checkEtcdHealth cfg env0)) = 1
       \<and> length (puts (banner cfg @ checkEtcdHealth cfg env0)) = 1
       \<and> tickers (banner cfg @ checkEtcdHealth cfg env0) = []"
  using assms
  by (simp add: main_def run_def Let_def case_prod_beta gets_append puts_append tickers_append
      banner_reads gets_checkEtcdHealth puts_checkEtcdHealth tickers_checkEtcdHealth)

theorem first_check_before_timer_witness:
  "configure plain_os = Inr plain_cfg
   \<and> snd (main plain_os healthy_env []) =
       banner plain_cfg @ checkEtcdHealth plain_cfg healthy_env
       @ [NewTicker 60000000000, SignalNotify []]"
proof -
  have i: "interval plain_cfg * Second = 60000000000"
    by (simp add: plain_cfg_def Second_def)
  obtain rest where "snd (main plain_os healthy_env []) =
      banner plain_cfg @ checkEtcdHealth plain_cfg healthy_env @ NewTicker 60000000000 # rest"
    using first_check_before_timer [OF configure_plain, of healthy_env "[]"] by (auto simp: i)
  then show ?thesis
    by (simp add: configure_plain main_def run_def i)
qed

text \<open>
  Claim C8. Two ticks under the same configuration whose GET is answered alike, with
  the same decoder, send requests that agree in everything but the timestamp.
\<close>

theorem identical_responses_identical_points:
  assumes "client_Get env1 (address cfg @ ''/health'') =
           client_Get env2 (address cfg @ ''/health'')"
    and "json_Unmarshal env1 = json_Unmarshal env2"
  shows "map (untimed \<circ> fst) (puts (checkEtcdHealth cfg env1)) =
         map (untimed \<circ> fst) (puts (checkEtcdHealth cfg env2))"
proof -
  have "observed cfg env1 = observed cfg env2"
    unfolding observed_def assms ..
  then show ?thesis
    by (simp add: puts_checkEtcdHealth untimed_params)
qed

theorem identical_responses_identical_points_witness:
  "time_Now healthy_env \<noteq> time_Now sink_down_env
   \<and> map (untimed \<circ> fst) (puts (checkEtcdHealth plain_cfg healthy_env)) =
     map (untimed \<circ> fst) (puts (checkEtcdHealth plain_cfg sink_down_env))"
proof -
  have a: "client_Get healthy_env (address plain_cfg @ ''/health'') =
           client_Get sink_down_env (address plain_cfg @ ''/health'')"
    by (simp add: sink_down_env_def)
  have b: "json_Unmarshal healthy_env = json_Unmarshal sink_down_env"
    by (simp add: sink_down_env_def)
  show ?thesis
    using identical_responses_identical_points [OF a b] by (simp add: scenario_times)
qed

text \<open>
  Claim C9. \<open>signal.Notify\<close> is called without a list of signals, so every signal is
  relayed to \<open>signalCh\<close>; and whichever signal the loop receives, after any number of
  ticks, the ticker is stopped and the process exits with status 0.
\<close>

theorem every_signal_exits:
  assumes "0 < sint (interval cfg * Second)"
  shows "run cfg env0 (map TickerC envs @ SignalCh s # evs) =
           (Exit 0,
            banner cfg @ checkEtcdHealth cfg env0
            @ [NewTicker (interval cfg * Second), SignalNotify []]
            @ concat (map (checkEtcdHealth cfg) envs)
            @ [LogPrintf ''[DEBUG] receiving signal: %q'' [ASig s], TickerStop])
       \<and> relayed [] s"
  using assms by (simp add: run_def main_loop_prefix_ticks relayed_def)

theorem every_signal_exits_witness:
  "relayed [] SIGUSR1
   \<and> run plain_cfg healthy_env [SignalCh SIGUSR1] =
       (Exit 0,
        banner plain_cfg @ checkEtcdHealth plain_cfg healthy_env
        @ [NewTicker 60000000000, SignalNotify [],
           LogPrintf ''[DEBUG] receiving signal: %q'' [ASig SIGUSR1], TickerStop])
   \<and> fst (run plain_cfg healthy_env [SignalCh SIGHUP]) = Exit 0"
proof -
  have i: "interval plain_cfg * Second = 60000000000"
    by (simp add: plain_cfg_def Second_def)
  have p: "0 < sint (interval plain_cfg * Second)"
    by (simp add: i)
  show ?thesis
    using every_signal_exits [OF p, of healthy_env "[]" SIGUSR1 "[]"]
      every_signal_exits [OF p, of healthy_env "[]" SIGHUP "[]"]
    by (simp add: i)
qed

text \<open>
  Claim C10, as amended. When the body is a JSON object none of whose keys equals
  \<open>health\<close> once the case of ASCII letters is ignored, decoding succeeds and leaves
  the health boolean at \<open>false\<close>; the tick logs no invalid-payload error and reports
  the count \<open>1.0\<close> through the ordinary unhealthy branch. The claim as stated, for
  every object without a member named \<open>health\<close>, fails at a body whose key is
  \<open>HEALTH\<close>: the decoder matches it to the field, and the tick reports \<open>0.0\<close>.
  The counterexample follows the witness.
\<close>

theorem missing_health_field:
  assumes "client_Get env (address cfg @ ''/health'') = Inr (Inr buff)"
    and "json_Unmarshal env = Unmarshal parse store"
    and "parse buff = Inr (JObject kvs)"
    and "\<forall>key \<in> fst ` set kvs. \<not> fieldMatch key"
  shows "json_Unmarshal env buff zero_Health = Inr \<lparr>IsHealthy = False\<rparr>
       \<and> checkEtcdHealth cfg env =
           HttpGet (address cfg @ ''/health'') # reportUnhealtyCount cfg env 1"
  using assms
  by (simp add: checkEtcdHealth_def Unmarshal_def decodeMembers_no_match zero_Health_def)

theorem missing_health_field_witness:
  \<open>scenario_parse ''{"status":"ok"}'' = Inr (JObject [(''status'', JString ''ok'')])
   \<and> \<not> fieldMatch ''status''
   \<and> json_Unmarshal other_key_env ''{"status":"ok"}'' zero_Health = Inr \<lparr>IsHealthy = False\<rparr>
   \<and> checkEtcdHealth plain_cfg other_key_env =
       [HttpGet ''https://127.0.0.1:2379/health'',
        LogPrintf ''[INFO] etcd IS NOT healthy'' [],
        PutMetricData (params plain_cfg 6000 1) None]\<close>
proof -
  have a: \<open>client_Get other_key_env (address plain_cfg @ ''/health'') = Inr (Inr ''{"status":"ok"}'')\<close>
    by (simp add: other_key_env_def answering_def)
  have b: "json_Unmarshal other_key_env = Unmarshal scenario_parse quoted_bool"
    by (simp add: other_key_env_def answering_def)
  have c: \<open>scenario_parse ''{"status":"ok"}'' = Inr (JObject [(''status'', JString ''ok'')])\<close>
    by (simp add: scenario_parse_def)
  have m: "\<not> fieldMatch ''status''"
    by (simp add: fieldMatch_def foldByte_def)
  then have d: "\<forall>key \<in> fst ` set [(''status'', JString ''ok'')]. \<not> fieldMatch key"
    by simp
  show ?thesis
    using missing_health_field [OF a b c d]
    by (simp add: c m reportUnhealtyCount_def scenario_times2 scenario_sinks2 plain_cfg_def)
qed

theorem upper_case_key_counterexample:
  \<open>scenario_parse ''{"HEALTH":"true"}'' = Inr (JObject [(''HEALTH'', JString ''true'')])
   \<and> ''health'' \<notin> fst ` set [(''HEALTH'', JString ''true'')]
   \<and> json_Unmarshal upper_key_env ''{"HEALTH":"true"}'' zero_Health = Inr \<lparr>IsHealthy = True\<rparr>
   \<and> checkEtcdHealth plain_cfg upper_key_env =
       [HttpGet ''https://127.0.0.1:2379/health'',
        LogPrintf ''[INFO] etcd is healthy'' [],
        PutMetricData (params plain_cfg 7000 0) None]\<close>
  by (simp add: scenario_parse_def upper_key_env_def answering_def Unmarshal_def
      zero_Health_def fieldMatch_def foldByte_def checkEtcdHealth_def reportUnhealtyCount_def
      plain_cfg_def)

end
